theory Spec2Isabelle
  imports Main "HOL-Library.Word"
begin

section \<open>Go values used by the package\<close>

text \<open>
  Go's \<open>int64\<close> is a 64-bit word. Go's \<open>int\<close> is taken at 64 bits as well (the
  width it has on every 64-bit platform), so the conversions \<open>int(x)\<close> of an \<open>int64\<close>
  and \<open>int64(x)\<close> of an \<open>int\<close> are sign-preserving casts between words of the same
  width. \<open>zapcore.Level\<close> is an \<open>int8\<close>; a \<open>byte\<close> is an 8-bit word.
\<close>

type_synonym int64 = "64 word"
type_synonym go_int = "64 word"
type_synonym byte = "8 word"

text \<open>
  A slice is either \<open>nil\<close> or holds a sequence of elements; the empty non-nil slice
  \<open>Slice []\<close> and \<open>nil\<close> are different values with the same elements. The same holds for
  a map.
\<close>

datatype 'a slice = nil_slice | Slice "'a list"

fun elems :: "'a slice \<Rightarrow> 'a list" where
  "elems nil_slice = []"
| "elems (Slice xs) = xs"

text \<open>The builtin \<open>len\<close>: the number of elements as an \<open>int\<close>; 0 for a nil slice.\<close>

definition len :: "'a slice \<Rightarrow> go_int" where
  "len s = word_of_nat (length (elems s))"

datatype ('k, 'v) go_map = nil_map | MapOf "'k \<rightharpoonup> 'v"

section \<open>The message envelope (wrp.Message)\<close>

text \<open>
  The attributes of \<open>wrp.Message\<close> that the package reads, with the types the calls in
  \<open>observer.go\<close> require: \<open>Type\<close> is a \<open>wrp.MessageType\<close> (an \<open>int64\<close> with a
  \<open>String\<close> method), \<open>Status\<close> and \<open>RequestDeliveryResponse\<close> are \<open>*int64\<close>
  (\<open>None\<close> is the nil pointer), \<open>QualityOfService\<close> is an integer type converted with
  \<open>int(...)\<close>. The struct's two further attributes (\<open>Spans\<close>, \<open>IncludeSpans\<close>) are never
  read by this package.
\<close>

record wrp_Message =
  Type :: int64
  Source :: string
  Destination :: string
  TransactionUUID :: string
  ContentType :: string
  Accept :: string
  Status :: "int64 option"
  RequestDeliveryResponse :: "int64 option"
  Headers :: "string slice"
  Metadata :: "(string, string) go_map"
  Path :: string
  Payload :: "byte slice"
  ServiceName :: string
  URL :: string
  PartnerIDs :: "string slice"
  SessionID :: string
  QualityOfService :: go_int

text \<open>The zero value \<open>wrp.Message{}\<close>.\<close>

definition zero_Message :: wrp_Message where
  "zero_Message = \<lparr>Type = 0, Source = [], Destination = [], TransactionUUID = [],
     ContentType = [], Accept = [], Status = None, RequestDeliveryResponse = None,
     Headers = nil_slice, Metadata = nil_map, Path = [], Payload = nil_slice,
     ServiceName = [], URL = [], PartnerIDs = nil_slice, SessionID = [],
     QualityOfService = 0\<rparr>"

section \<open>Named values (zap.Field)\<close>

text \<open>
  A \<open>zap.Field\<close> is a key with one value. The value shapes are those the constructors
  called in \<open>observer.go\<close> build: a 64-bit integer, a string, a \<open>wrp.MessageType\<close>
  carried as \<open>fmt.Stringer\<close> (rendered by its \<open>String\<close> method when the record is
  encoded), the explicit null that \<open>zap.Int64p\<close> builds for a nil pointer, an array of
  strings, a binary blob, and a reflected map. Slices and maps are carried as they are
  passed, nil or not.
\<close>

datatype Value =
    Int64V int64
  | StringV string
  | StringerV int64
  | NullV
  | StringsV "string slice"
  | BinaryV "byte slice"
  | ReflectV "(string, string) go_map"

record zap_Field =
  Key :: string
  Val :: Value

definition zap_Int64 :: "string \<Rightarrow> int64 \<Rightarrow> zap_Field" where
  "zap_Int64 key val = \<lparr>Key = key, Val = Int64V val\<rparr>"

text \<open>\<open>zap.Int(key, val)\<close> is \<open>zap.Int64(key, int64(val))\<close>.\<close>

definition zap_Int :: "string \<Rightarrow> go_int \<Rightarrow> zap_Field" where
  "zap_Int key val = zap_Int64 key (scast val)"

text \<open>\<open>zap.Int64p\<close>: the explicit null for a nil pointer, the pointee otherwise.\<close>

definition zap_Int64p :: "string \<Rightarrow> int64 option \<Rightarrow> zap_Field" where
  "zap_Int64p key val = (case val of None \<Rightarrow> \<lparr>Key = key, Val = NullV\<rparr>
                                     | Some v \<Rightarrow> zap_Int64 key v)"

definition zap_String :: "string \<Rightarrow> string \<Rightarrow> zap_Field" where
  "zap_String key val = \<lparr>Key = key, Val = StringV val\<rparr>"

definition zap_Stringer :: "string \<Rightarrow> int64 \<Rightarrow> zap_Field" where
  "zap_Stringer key val = \<lparr>Key = key, Val = StringerV val\<rparr>"

definition zap_Strings :: "string \<Rightarrow> string slice \<Rightarrow> zap_Field" where
  "zap_Strings key ss = \<lparr>Key = key, Val = StringsV ss\<rparr>"

definition zap_Binary :: "string \<Rightarrow> byte slice \<Rightarrow> zap_Field" where
  "zap_Binary key val = \<lparr>Key = key, Val = BinaryV val\<rparr>"

text \<open>\<open>zap.Any\<close> on a \<open>map[string]string\<close> falls to \<open>zap.Reflect\<close>.\<close>

definition zap_Any :: "string \<Rightarrow> (string, string) go_map \<Rightarrow> zap_Field" where
  "zap_Any key val = \<lparr>Key = key, Val = ReflectV val\<rparr>"

text \<open>
  What the encoder is handed for a textual field: the string itself, or the output of
  the \<open>String\<close> method of the carried value. The method belongs to \<open>wrp.MessageType\<close>
  and is a parameter here.
\<close>

fun text_of :: "(int64 \<Rightarrow> string) \<Rightarrow> Value \<Rightarrow> string option" where
  "text_of String (StringV s) = Some s"
| "text_of String (StringerV t) = Some (String t)"
| "text_of String _ = None"

section \<open>fields.go: the field names\<close>

definition fMsgType :: string where "fMsgType = ''msg_type''"
definition fSource :: string where "fSource = ''source''"
definition fDestination :: string where "fDestination = ''dest''"
definition fTransactionUUID :: string where "fTransactionUUID = ''transaction_uuid''"
definition fContentType :: string where "fContentType = ''content_type''"
definition fAccept :: string where "fAccept = ''accept''"
definition fStatus :: string where "fStatus = ''status''"
definition fRequestDeliveryResponse :: string where "fRequestDeliveryResponse = ''rdr''"
definition fHeaders :: string where "fHeaders = ''headers''"
definition fMetadata :: string where "fMetadata = ''metadata''"
definition fPath :: string where "fPath = ''path''"
definition fPayload :: string where "fPayload = ''payload''"
definition fPayloadSize :: string where "fPayloadSize = ''payload_size''"
definition fServiceName :: string where "fServiceName = ''service_name''"
definition fURL :: string where "fURL = ''url''"
definition fPartnerIDs :: string where "fPartnerIDs = ''partner_ids''"
definition fSessionID :: string where "fSessionID = ''session_id''"
definition fQualityOfService :: string where "fQualityOfService = ''qos''"

section \<open>observer.go: FieldOpt and the Log* factories\<close>

text \<open>
  \<open>type FieldOpt func(wrp.Message) zap.Field\<close>. A value of a Go function type may be
  nil (\<open>None\<close>); calling it then panics with a nil dereference.
\<close>

type_synonym FieldOpt = "(wrp_Message \<Rightarrow> zap_Field) option"

datatype panic = NilDereference

definition call :: "FieldOpt \<Rightarrow> wrp_Message \<Rightarrow> panic + zap_Field" where
  "call field msg = (case field of None \<Rightarrow> Inl NilDereference | Some f \<Rightarrow> Inr (f msg))"

definition LogMessageTypeAsString :: FieldOpt where
  "LogMessageTypeAsString = Some (\<lambda>msg. zap_Stringer fMsgType (Type msg))"

definition LogMessageTypeAsNum :: FieldOpt where
  "LogMessageTypeAsNum = Some (\<lambda>msg. zap_Int fMsgType (scast (Type msg)))"

definition LogMessageType :: FieldOpt where
  "LogMessageType = LogMessageTypeAsNum"

definition LogSource :: FieldOpt where
  "LogSource = Some (\<lambda>msg. zap_String fSource (Source msg))"

definition LogDestination :: FieldOpt where
  "LogDestination = Some (\<lambda>msg. zap_String fDestination (Destination msg))"

definition LogTransactionUUID :: FieldOpt where
  "LogTransactionUUID = Some (\<lambda>msg. zap_String fTransactionUUID (TransactionUUID msg))"

definition LogContentType :: FieldOpt where
  "LogContentType = Some (\<lambda>msg. zap_String fContentType (ContentType msg))"

definition LogAccept :: FieldOpt where
  "LogAccept = Some (\<lambda>msg. zap_String fAccept (Accept msg))"

definition LogStatus :: FieldOpt where
  "LogStatus = Some (\<lambda>msg. zap_Int64p fStatus (Status msg))"

definition LogRequestDeliveryResponse :: FieldOpt where
  "LogRequestDeliveryResponse =
     Some (\<lambda>msg. zap_Int64p fRequestDeliveryResponse (RequestDeliveryResponse msg))"

definition LogHeaders :: FieldOpt where
  "LogHeaders = Some (\<lambda>msg. zap_Strings fHeaders (Headers msg))"

definition LogMetadata :: FieldOpt where
  "LogMetadata = Some (\<lambda>msg. zap_Any fMetadata (Metadata msg))"

definition LogPath :: FieldOpt where
  "LogPath = Some (\<lambda>msg. zap_String fPath (Path msg))"

definition LogPayload :: FieldOpt where
  "LogPayload = Some (\<lambda>msg. zap_Binary fPayload (Payload msg))"

definition LogPayloadSize :: FieldOpt where
  "LogPayloadSize = Some (\<lambda>msg. zap_Int fPayloadSize (len (Payload msg)))"

definition LogServiceName :: FieldOpt where
  "LogServiceName = Some (\<lambda>msg. zap_String fServiceName (ServiceName msg))"

definition LogURL :: FieldOpt where
  "LogURL = Some (\<lambda>msg. zap_String fURL (URL msg))"

definition LogPartnerIDs :: FieldOpt where
  "LogPartnerIDs = Some (\<lambda>msg. zap_Strings fPartnerIDs (PartnerIDs msg))"

definition LogSessionID :: FieldOpt where
  "LogSessionID = Some (\<lambda>msg. zap_String fSessionID (SessionID msg))"

definition LogQualityOfService :: FieldOpt where
  "LogQualityOfService = Some (\<lambda>msg. zap_Int fQualityOfService (scast (QualityOfService msg)))"

section \<open>observer.go: the Observer\<close>

text \<open>
  The emission target is a \<open>*zap.Logger\<close>: a pointer, nil or the address of a logger.
  The state of the program is what each logger has been handed so far, oldest first:
  one entry per call of its \<open>Log\<close> method, with the level, the message and the fields
  of the call. What the logger does with an entry (level filtering, encoding, delivery)
  is the logger's own.
\<close>

type_synonym addr = nat
type_synonym Level = "8 word"

record LoggedEntry =
  entry_Level :: Level
  entry_Message :: string
  Context :: "zap_Field list"

type_synonym loggers = "addr \<Rightarrow> LoggedEntry list"

definition Logger_Log :: "addr \<Rightarrow> Level \<Rightarrow> string \<Rightarrow> zap_Field list \<Rightarrow> loggers \<Rightarrow> loggers" where
  "Logger_Log l lvl msg flds h =
     h(l := h l @ [\<lparr>entry_Level = lvl, entry_Message = msg, Context = flds\<rparr>])"

record Observer =
  Logger :: "addr option"
  Level :: Level
  Message :: string
  Fields :: "FieldOpt list"

text \<open>
  The loop of \<open>ObserveWRP\<close>: \<open>fields = append(fields, field(msg))\<close> for each configured
  field in order, starting from the empty slice; a panic of a call ends it.
\<close>

fun append_fields :: "FieldOpt list \<Rightarrow> wrp_Message \<Rightarrow> zap_Field list \<Rightarrow> panic + zap_Field list" where
  "append_fields [] msg flds = Inr flds"
| "append_fields (field # rest) msg flds =
     (case call field msg of
        Inl p \<Rightarrow> Inl p
      | Inr v \<Rightarrow> append_fields rest msg (flds @ [v]))"

definition ObserveWRP :: "Observer \<Rightarrow> wrp_Message \<Rightarrow> loggers \<Rightarrow> panic + loggers" where
  "ObserveWRP ob msg h =
     (case Logger ob of
        None \<Rightarrow> Inr h
      | Some l \<Rightarrow>
          (case append_fields (Fields ob) msg [] of
             Inl p \<Rightarrow> Inl p
           | Inr flds \<Rightarrow> Inr (Logger_Log l (Level ob) (Message ob) flds h)))"

section \<open>observer.go: the closures as Go code\<close>

text \<open>
  A Go function of the type \<open>FieldOpt\<close> is more than a function of its argument: its
  body may panic, and it may read and write the state of the program. Running Go code
  in a state gives a value or a panic, and the state after it. The state is the one of
  the loggers, the only state there is here.
\<close>

type_synonym 'a go = "loggers \<Rightarrow> (panic + 'a) \<times> loggers"

definition go_return :: "'a \<Rightarrow> 'a go" where
  "go_return v = (\<lambda>h. (Inr v, h))"

definition go_bind :: "'a go \<Rightarrow> ('a \<Rightarrow> 'b go) \<Rightarrow> 'b go" where
  "go_bind c k = (\<lambda>h. case c h of (Inl p, h') \<Rightarrow> (Inl p, h') | (Inr v, h') \<Rightarrow> k v h')"

text \<open>The pointer indirection \<open>*p\<close>: a panic on the nil pointer.\<close>

definition deref :: "'a option \<Rightarrow> 'a go" where
  "deref p = (\<lambda>h. case p of None \<Rightarrow> (Inl NilDereference, h) | Some v \<Rightarrow> (Inr v, h))"

text \<open>
  \<open>zap.Int64p\<close> as it runs: \<open>if val == nil { return nilField(key) }\<close>, then
  \<open>return Int64(key, *val)\<close>.
\<close>

definition run_Int64p :: "string \<Rightarrow> int64 option \<Rightarrow> zap_Field go" where
  "run_Int64p key val =
     (if val = None then go_return \<lparr>Key = key, Val = NullV\<rparr>
      else go_bind (deref val) (\<lambda>v. go_return (zap_Int64 key v)))"

text \<open>
  The body of the closure each factory returns, statement for statement. Selecting an
  attribute of the message (a struct passed by value), \<open>len\<close> and the integer
  conversions cannot panic and touch no state; the other constructors of zap only build
  the field.
\<close>

definition run_LogMessageTypeAsString :: "wrp_Message \<Rightarrow> zap_Field go" where
  "run_LogMessageTypeAsString msg = go_return (zap_Stringer fMsgType (Type msg))"

definition run_LogMessageTypeAsNum :: "wrp_Message \<Rightarrow> zap_Field go" where
  "run_LogMessageTypeAsNum msg = go_return (zap_Int fMsgType (scast (Type msg)))"

definition run_LogSource :: "wrp_Message \<Rightarrow> zap_Field go" where
  "run_LogSource msg = go_return (zap_String fSource (Source msg))"

definition run_LogDestination :: "wrp_Message \<Rightarrow> zap_Field go" where
  "run_LogDestination msg = go_return (zap_String fDestination (Destination msg))"

definition run_LogTransactionUUID :: "wrp_Message \<Rightarrow> zap_Field go" where
  "run_LogTransactionUUID msg = go_return (zap_String fTransactionUUID (TransactionUUID msg))"

definition run_LogContentType :: "wrp_Message \<Rightarrow> zap_Field go" where
  "run_LogContentType msg = go_return (zap_String fContentType (ContentType msg))"

definition run_LogAccept :: "wrp_Message \<Rightarrow> zap_Field go" where
  "run_LogAccept msg = go_return (zap_String fAccept (Accept msg))"

definition run_LogStatus :: "wrp_Message \<Rightarrow> zap_Field go" where
  "run_LogStatus msg = run_Int64p fStatus (Status msg)"

definition run_LogRequestDeliveryResponse :: "wrp_Message \<Rightarrow> zap_Field go" where
  "run_LogRequestDeliveryResponse msg =
     run_Int64p fRequestDeliveryResponse (RequestDeliveryResponse msg)"

definition run_LogHeaders :: "wrp_Message \<Rightarrow> zap_Field go" where
  "run_LogHeaders msg = go_return (zap_Strings fHeaders (Headers msg))"

definition run_LogMetadata :: "wrp_Message \<Rightarrow> zap_Field go" where
  "run_LogMetadata msg = go_return (zap_Any fMetadata (Metadata msg))"

definition run_LogPath :: "wrp_Message \<Rightarrow> zap_Field go" where
  "run_LogPath msg = go_return (zap_String fPath (Path msg))"

definition run_LogPayload :: "wrp_Message \<Rightarrow> zap_Field go" where
  "run_LogPayload msg = go_return (zap_Binary fPayload (Payload msg))"

definition run_LogPayloadSize :: "wrp_Message \<Rightarrow> zap_Field go" where
  "run_LogPayloadSize msg = go_return (zap_Int fPayloadSize (len (Payload msg)))"

definition run_LogServiceName :: "wrp_Message \<Rightarrow> zap_Field go" where
  "run_LogServiceName msg = go_return (zap_String fServiceName (ServiceName msg))"

definition run_LogURL :: "wrp_Message \<Rightarrow> zap_Field go" where
  "run_LogURL msg = go_return (zap_String fURL (URL msg))"

definition run_LogPartnerIDs :: "wrp_Message \<Rightarrow> zap_Field go" where
  "run_LogPartnerIDs msg = go_return (zap_Strings fPartnerIDs (PartnerIDs msg))"

definition run_LogSessionID :: "wrp_Message \<Rightarrow> zap_Field go" where
  "run_LogSessionID msg = go_return (zap_String fSessionID (SessionID msg))"

definition run_LogQualityOfService :: "wrp_Message \<Rightarrow> zap_Field go" where
  "run_LogQualityOfService msg =
     go_return (zap_Int fQualityOfService (scast (QualityOfService msg)))"

text \<open>
  The factories of the package, in the order of the source file: what each returns,
  with the body of its closure. \<open>LogMessageType\<close> returns what \<open>LogMessageTypeAsNum\<close>
  returns.
\<close>

definition catalog :: "(FieldOpt \<times> (wrp_Message \<Rightarrow> zap_Field go)) list" where
  "catalog =
    [(LogMessageType, run_LogMessageTypeAsNum),
     (LogMessageTypeAsString, run_LogMessageTypeAsString),
     (LogMessageTypeAsNum, run_LogMessageTypeAsNum),
     (LogSource, run_LogSource),
     (LogDestination, run_LogDestination),
     (LogTransactionUUID, run_LogTransactionUUID),
     (LogContentType, run_LogContentType),
     (LogAccept, run_LogAccept),
     (LogStatus, run_LogStatus),
     (LogRequestDeliveryResponse, run_LogRequestDeliveryResponse),
     (LogHeaders, run_LogHeaders),
     (LogMetadata, run_LogMetadata),
     (LogPath, run_LogPath),
     (LogPayload, run_LogPayload),
     (LogPayloadSize, run_LogPayloadSize),
     (LogServiceName, run_LogServiceName),
     (LogURL, run_LogURL),
     (LogPartnerIDs, run_LogPartnerIDs),
     (LogSessionID, run_LogSessionID),
     (LogQualityOfService, run_LogQualityOfService)]"

section \<open>The encoded record\<close>

text \<open>
  What zap's JSON encoder writes for the value of a field: a number, a string, the
  text the \<open>String\<close> method returns for the carried message type, \<open>null\<close> for the
  explicit null, an array with the elements of a slice of strings (the loop over a nil
  slice runs no round, the brackets are written all the same), the base64 text of the
  bytes of a blob, and for a reflected map what \<open>encoding/json\<close> writes: \<open>null\<close> for
  the nil map, an object with the entries otherwise.
\<close>

datatype encoded =
    JNull
  | JNumber int
  | JString string
  | JStringOf int64
  | JArray "string list"
  | JBase64 "byte list"
  | JObject "string \<rightharpoonup> string"

fun encode :: "Value \<Rightarrow> encoded" where
  "encode (Int64V v) = JNumber (sint v)"
| "encode (StringV s) = JString s"
| "encode (StringerV t) = JStringOf t"
| "encode NullV = JNull"
| "encode (StringsV ss) = JArray (elems ss)"
| "encode (BinaryV b) = JBase64 (elems b)"
| "encode (ReflectV nil_map) = JNull"
| "encode (ReflectV (MapOf m)) = JObject m"

text \<open>The name and the encoded value of the field an extractor yields on a message.\<close>

definition encoded_field :: "FieldOpt \<Rightarrow> wrp_Message \<Rightarrow> panic + string \<times> encoded" where
  "encoded_field field msg =
     (case call field msg of
        Inl p \<Rightarrow> Inl p
      | Inr f \<Rightarrow> Inr (Key f, encode (Val f)))"

section \<open>Unfolding rules\<close>

lemmas zap_defs = zap_Int64_def zap_Int_def zap_Int64p_def zap_String_def zap_Stringer_def
  zap_Strings_def zap_Binary_def zap_Any_def

lemmas field_names = fMsgType_def fSource_def fDestination_def fTransactionUUID_def
  fContentType_def fAccept_def fStatus_def fRequestDeliveryResponse_def fHeaders_def
  fMetadata_def fPath_def fPayload_def fPayloadSize_def fServiceName_def fURL_def
  fPartnerIDs_def fSessionID_def fQualityOfService_def

lemmas Log_defs = LogMessageTypeAsString_def LogMessageTypeAsNum_def LogMessageType_def
  LogSource_def LogDestination_def LogTransactionUUID_def LogContentType_def LogAccept_def
  LogStatus_def LogRequestDeliveryResponse_def LogHeaders_def LogMetadata_def LogPath_def
  LogPayload_def LogPayloadSize_def LogServiceName_def LogURL_def LogPartnerIDs_def
  LogSessionID_def LogQualityOfService_def

lemmas run_defs = run_LogMessageTypeAsString_def run_LogMessageTypeAsNum_def run_LogSource_def
  run_LogDestination_def run_LogTransactionUUID_def run_LogContentType_def run_LogAccept_def
  run_LogStatus_def run_LogRequestDeliveryResponse_def run_LogHeaders_def run_LogMetadata_def
  run_LogPath_def run_LogPayload_def run_LogPayloadSize_def run_LogServiceName_def
  run_LogURL_def run_LogPartnerIDs_def run_LogSessionID_def run_LogQualityOfService_def

section \<open>The loop over the configured fields\<close>

text \<open>
  When every configured field is a function, the loop returns the values of the
  functions on the message, in the order of the list, after what it started from. When
  one of them is nil, the loop panics.
\<close>

lemma append_fields_Some:
  "append_fields (map Some es) msg flds = Inr (flds @ map (\<lambda>e. e msg) es)"
  by (induction es arbitrary: flds) (simp_all add: call_def)

lemma append_fields_None:
  "None \<in> set fs \<Longrightarrow> append_fields fs msg flds = Inl NilDereference"
proof (induction fs arbitrary: flds)
  case Nil
  then show ?case by simp
next
  case (Cons f fs)
  then show ?case by (cases f) (auto simp: call_def)
qed

lemma no_None_map_Some: "None \<notin> set fs \<Longrightarrow> \<exists>es. fs = map Some es"
proof (induction fs)
  case Nil
  then show ?case by simp
next
  case (Cons f fs)
  then obtain es where "fs = map Some es" by auto
  moreover from Cons.prems obtain e where "f = Some e" by (cases f) auto
  ultimately have "f # fs = map Some (e # es)" by simp
  then show ?case by (rule exI [of _ "e # es"])
qed

section \<open>The length of a slice as a signed 64-bit integer\<close>

text \<open>
  The length of a Go slice is a non-negative \<open>int\<close>, so it is below \<open>2 ^ 63\<close>; the
  word \<open>len\<close> returns then reads back, as a signed integer, as that length.
\<close>

lemma sint_len_small:
  assumes "n < 2 ^ 63"
  shows "sint (word_of_nat n :: 64 word) = int n"
proof -
  have lt: "int n < 2 ^ 63"
    using assms by simp
  have ge: "- (2 ^ 63) \<le> int n"
    by (rule order_trans [of _ 0]) simp_all
  have stb: "signed_take_bit 63 (int n) = int n"
    using ge lt by (rule signed_take_bit_int_eq_self)
  have "sint (word_of_int (int n) :: 64 word) = signed_take_bit (LENGTH(64) - 1) (int n)"
    by (rule sint_sbintrunc')
  also have "LENGTH(64) - 1 = (63::nat)"
    by simp
  finally have "sint (word_of_int (int n) :: 64 word) = int n"
    by (simp only: stb)
  moreover have "(word_of_nat n :: 64 word) = word_of_int (int n)"
    by simp
  ultimately show ?thesis by (simp only:)
qed

section \<open>zap.Int64p as it runs\<close>

text \<open>
  The indirection in \<open>zap.Int64p\<close> is reached only with a pointer that is not nil, so
  running it never panics and changes no state; its value is the one of \<open>zap_Int64p\<close>.
\<close>

lemma run_Int64p_pure: "run_Int64p key val h = (Inr (zap_Int64p key val), h)"
  by (cases val) (simp_all add: run_Int64p_def go_return_def go_bind_def deref_def zap_Int64p_def)

section \<open>The disabled observer\<close>

text \<open>
  C2. An Observer whose Logger is nil returns at once: for every message and whatever
  its Fields hold, the call ends normally (no panic, no error) and no logger has
  received anything, the state is the one before the call.
\<close>

theorem ObserveWRP_nil_logger:
  assumes "Logger ob = None"
  shows "ObserveWRP ob msg h = Inr h"
  using assms by (simp add: ObserveWRP_def)

theorem ObserveWRP_nil_logger_witness:
  "Logger \<lparr>Logger = None, Level = 0, Message = ''m'', Fields = [LogSource, None]\<rparr> = None
   \<and> ObserveWRP \<lparr>Logger = None, Level = 0, Message = ''m'', Fields = [LogSource, None]\<rparr>
        zero_Message (\<lambda>_. []) = Inr (\<lambda>_. [])"
  using ObserveWRP_nil_logger
    [of "\<lparr>Logger = None, Level = 0, Message = ''m'', Fields = [LogSource, None]\<rparr>"
        zero_Message "\<lambda>_. []"]
  by simp

section \<open>The enabled observer\<close>

text \<open>
  C1. Let the Logger of an Observer be the address \<open>l\<close> of a logger and let its Fields
  be the functions \<open>es\<close> (N extractors, none of them nil). Then, for every message,
  \<open>ObserveWRP\<close> ends normally and hands exactly one entry to the logger at \<open>l\<close>,
  after the entries it already held; every other logger is unchanged. The entry carries
  the Level and the Message of the Observer, and its fields are the values of the N
  extractors on the message, one per configured extractor, in the configured order:
  an extractor configured twice yields its value twice, nothing is filtered.
\<close>

theorem ObserveWRP_emits_one:
  assumes "Logger ob = Some l" and "Fields ob = map Some es"
  shows "ObserveWRP ob msg h =
           Inr (h(l := h l @ [\<lparr>entry_Level = Level ob, entry_Message = Message ob,
                                Context = map (\<lambda>e. e msg) es\<rparr>]))"
  using assms by (simp add: ObserveWRP_def append_fields_Some Logger_Log_def)

theorem ObserveWRP_emits_one_witness:
  "Logger \<lparr>Logger = Some 0, Level = 0, Message = ''m'', Fields = [LogSource, LogStatus, LogSource]\<rparr> = Some 0
   \<and> Fields \<lparr>Logger = Some 0, Level = 0, Message = ''m'', Fields = [LogSource, LogStatus, LogSource]\<rparr>
        = map Some [\<lambda>msg. zap_String fSource (Source msg), \<lambda>msg. zap_Int64p fStatus (Status msg),
                    \<lambda>msg. zap_String fSource (Source msg)]
   \<and> ObserveWRP \<lparr>Logger = Some 0, Level = 0, Message = ''m'', Fields = [LogSource, LogStatus, LogSource]\<rparr>
        zero_Message (\<lambda>_. [])
      = Inr ((\<lambda>_. [])(0 := [\<lparr>entry_Level = 0, entry_Message = ''m'',
               Context = [\<lparr>Key = ''source'', Val = StringV []\<rparr>, \<lparr>Key = ''status'', Val = NullV\<rparr>,
                          \<lparr>Key = ''source'', Val = StringV []\<rparr>]\<rparr>]))"
  using ObserveWRP_emits_one
    [of "\<lparr>Logger = Some 0, Level = 0, Message = ''m'', Fields = [LogSource, LogStatus, LogSource]\<rparr>" 0
        "[\<lambda>msg. zap_String fSource (Source msg), \<lambda>msg. zap_Int64p fStatus (Status msg),
          \<lambda>msg. zap_String fSource (Source msg)]" zero_Message "\<lambda>_. []"]
  by (simp add: LogSource_def LogStatus_def zap_String_def zap_Int64p_def fSource_def fStatus_def
        zero_Message_def)

text \<open>
  C9. Let the Logger of an Observer be non-nil. Then \<open>ObserveWRP\<close> panics with a nil
  dereference exactly when one of its Fields is a nil function, and it ends normally
  exactly when none is: the call is total only on Observers all of whose configured
  fields are defined.
\<close>

theorem ObserveWRP_nil_field_panics:
  assumes "Logger ob = Some l"
  shows "(ObserveWRP ob msg h = Inl NilDereference) = (None \<in> set (Fields ob))
       \<and> ((\<exists>h'. ObserveWRP ob msg h = Inr h') = (None \<notin> set (Fields ob)))"
proof (cases "None \<in> set (Fields ob)")
  case True
  then have "ObserveWRP ob msg h = Inl NilDereference"
    using assms by (simp add: ObserveWRP_def append_fields_None)
  with True show ?thesis by simp
next
  case False
  then obtain es where "Fields ob = map Some es"
    using no_None_map_Some by blast
  then have "\<exists>h'. ObserveWRP ob msg h = Inr h'"
    using assms by (simp add: ObserveWRP_def append_fields_Some)
  with False show ?thesis by auto
qed

theorem ObserveWRP_nil_field_panics_witness:
  "Logger \<lparr>Logger = Some 0, Level = 0, Message = ''m'', Fields = [LogSource, None]\<rparr> = Some 0
   \<and> ObserveWRP \<lparr>Logger = Some 0, Level = 0, Message = ''m'', Fields = [LogSource, None]\<rparr>
        zero_Message (\<lambda>_. []) = Inl NilDereference"
  using ObserveWRP_nil_field_panics
    [of "\<lparr>Logger = Some 0, Level = 0, Message = ''m'', Fields = [LogSource, None]\<rparr>" 0
        zero_Message "\<lambda>_. []"]
  by simp

section \<open>The extractors\<close>

text \<open>
  C3. For every message, each extractor of the package yields a field whose name is the
  string of the public contract, character for character: \<open>msg_type\<close> for the three
  message-type factories, \<open>source\<close>, \<open>dest\<close>, \<open>transaction_uuid\<close>, \<open>content_type\<close>,
  \<open>accept\<close>, \<open>status\<close>, \<open>rdr\<close>, \<open>headers\<close>, \<open>metadata\<close>, \<open>path\<close>, \<open>payload\<close>,
  \<open>payload_size\<close>, \<open>service_name\<close>, \<open>url\<close>, \<open>partner_ids\<close>, \<open>session_id\<close> and
  \<open>qos\<close> for the others.
\<close>

theorem field_names_contract:
  "(\<exists>v. call LogMessageType m = Inr \<lparr>Key = ''msg_type'', Val = v\<rparr>)
 \<and> (\<exists>v. call LogMessageTypeAsString m = Inr \<lparr>Key = ''msg_type'', Val = v\<rparr>)
 \<and> (\<exists>v. call LogMessageTypeAsNum m = Inr \<lparr>Key = ''msg_type'', Val = v\<rparr>)
 \<and> (\<exists>v. call LogSource m = Inr \<lparr>Key = ''source'', Val = v\<rparr>)
 \<and> (\<exists>v. call LogDestination m = Inr \<lparr>Key = ''dest'', Val = v\<rparr>)
 \<and> (\<exists>v. call LogTransactionUUID m = Inr \<lparr>Key = ''transaction_uuid'', Val = v\<rparr>)
 \<and> (\<exists>v. call LogContentType m = Inr \<lparr>Key = ''content_type'', Val = v\<rparr>)
 \<and> (\<exists>v. call LogAccept m = Inr \<lparr>Key = ''accept'', Val = v\<rparr>)
 \<and> (\<exists>v. call LogStatus m = Inr \<lparr>Key = ''status'', Val = v\<rparr>)
 \<and> (\<exists>v. call LogRequestDeliveryResponse m = Inr \<lparr>Key = ''rdr'', Val = v\<rparr>)
 \<and> (\<exists>v. call LogHeaders m = Inr \<lparr>Key = ''headers'', Val = v\<rparr>)
 \<and> (\<exists>v. call LogMetadata m = Inr \<lparr>Key = ''metadata'', Val = v\<rparr>)
 \<and> (\<exists>v. call LogPath m = Inr \<lparr>Key = ''path'', Val = v\<rparr>)
 \<and> (\<exists>v. call LogPayload m = Inr \<lparr>Key = ''payload'', Val = v\<rparr>)
 \<and> (\<exists>v. call LogPayloadSize m = Inr \<lparr>Key = ''payload_size'', Val = v\<rparr>)
 \<and> (\<exists>v. call LogServiceName m = Inr \<lparr>Key = ''service_name'', Val = v\<rparr>)
 \<and> (\<exists>v. call LogURL m = Inr \<lparr>Key = ''url'', Val = v\<rparr>)
 \<and> (\<exists>v. call LogPartnerIDs m = Inr \<lparr>Key = ''partner_ids'', Val = v\<rparr>)
 \<and> (\<exists>v. call LogSessionID m = Inr \<lparr>Key = ''session_id'', Val = v\<rparr>)
 \<and> (\<exists>v. call LogQualityOfService m = Inr \<lparr>Key = ''qos'', Val = v\<rparr>)"
  by (intro conjI) (simp_all add: call_def Log_defs zap_defs field_names split: option.split)

text \<open>
  C4. For every message, \<open>LogStatus\<close> and \<open>LogRequestDeliveryResponse\<close> keep the
  difference between a nil and a non-nil attribute: a nil pointer gives the field with
  the explicit null as its value, a pointer to \<open>v\<close> gives the field with the integer
  \<open>v\<close>. The null is no integer, so it is never a zero made up for the occasion, and
  an Observer configured with the two extractors hands over a record that holds both
  fields, with the null as value, when both attributes are nil: the fields are not
  left out.
\<close>

theorem optional_int64_preserved:
  "(Status m = None \<longrightarrow> call LogStatus m = Inr \<lparr>Key = ''status'', Val = NullV\<rparr>)
 \<and> (\<forall>v. Status m = Some v \<longrightarrow> call LogStatus m = Inr \<lparr>Key = ''status'', Val = Int64V v\<rparr>)
 \<and> (RequestDeliveryResponse m = None \<longrightarrow>
       call LogRequestDeliveryResponse m = Inr \<lparr>Key = ''rdr'', Val = NullV\<rparr>)
 \<and> (\<forall>v. RequestDeliveryResponse m = Some v \<longrightarrow>
       call LogRequestDeliveryResponse m = Inr \<lparr>Key = ''rdr'', Val = Int64V v\<rparr>)
 \<and> (\<forall>v. NullV \<noteq> Int64V v)
 \<and> ObserveWRP \<lparr>Logger = Some l, Level = lvl, Message = label,
                 Fields = [LogStatus, LogRequestDeliveryResponse]\<rparr>
       (m\<lparr>Status := None, RequestDeliveryResponse := None\<rparr>) h
     = Inr (h(l := h l @ [\<lparr>entry_Level = lvl, entry_Message = label,
              Context = [\<lparr>Key = ''status'', Val = NullV\<rparr>, \<lparr>Key = ''rdr'', Val = NullV\<rparr>]\<rparr>]))"
  by (simp add: call_def LogStatus_def LogRequestDeliveryResponse_def zap_Int64p_def
        zap_Int64_def fStatus_def fRequestDeliveryResponse_def ObserveWRP_def Logger_Log_def)

theorem optional_int64_preserved_witness:
  "Status zero_Message = None
 \<and> call LogStatus zero_Message = Inr \<lparr>Key = ''status'', Val = NullV\<rparr>
 \<and> RequestDeliveryResponse zero_Message = None
 \<and> call LogRequestDeliveryResponse zero_Message = Inr \<lparr>Key = ''rdr'', Val = NullV\<rparr>
 \<and> Status (zero_Message\<lparr>Status := Some 123, RequestDeliveryResponse := Some 0\<rparr>) = Some 123
 \<and> call LogStatus (zero_Message\<lparr>Status := Some 123, RequestDeliveryResponse := Some 0\<rparr>)
       = Inr \<lparr>Key = ''status'', Val = Int64V 123\<rparr>
 \<and> RequestDeliveryResponse (zero_Message\<lparr>Status := Some 123, RequestDeliveryResponse := Some 0\<rparr>)
       = Some 0
 \<and> call LogRequestDeliveryResponse
       (zero_Message\<lparr>Status := Some 123, RequestDeliveryResponse := Some 0\<rparr>)
       = Inr \<lparr>Key = ''rdr'', Val = Int64V 0\<rparr>"
  using optional_int64_preserved [of zero_Message]
    optional_int64_preserved [of "zero_Message\<lparr>Status := Some 123, RequestDeliveryResponse := Some 0\<rparr>"]
  by (simp add: zero_Message_def)

text \<open>
  C5. For every message, \<open>LogPayloadSize\<close> yields the field \<open>payload_size\<close> whose
  value is the number of bytes of the payload as a Go \<open>int\<close>: read as a signed
  integer it is that number (the length of a slice is below \<open>2 ^ 63\<close>), and it is 0
  when the payload has no bytes.
\<close>

theorem LogPayloadSize_byte_length:
  "call LogPayloadSize m =
     Inr \<lparr>Key = ''payload_size'', Val = Int64V (word_of_nat (length (elems (Payload m))))\<rparr>
 \<and> (length (elems (Payload m)) < 2 ^ 63 \<longrightarrow>
       (\<exists>n. call LogPayloadSize m = Inr \<lparr>Key = ''payload_size'', Val = Int64V n\<rparr>
            \<and> sint n = int (length (elems (Payload m)))))
 \<and> (elems (Payload m) = [] \<longrightarrow>
       call LogPayloadSize m = Inr \<lparr>Key = ''payload_size'', Val = Int64V 0\<rparr>)"
  by (simp add: call_def LogPayloadSize_def zap_Int_def zap_Int64_def len_def fPayloadSize_def
        sint_len_small)

theorem LogPayloadSize_byte_length_witness:
  "length (elems (Payload (zero_Message\<lparr>Payload := Slice [116, 101, 115, 116]\<rparr>))) < 2 ^ 63
 \<and> (\<exists>n. call LogPayloadSize (zero_Message\<lparr>Payload := Slice [116, 101, 115, 116]\<rparr>)
           = Inr \<lparr>Key = ''payload_size'', Val = Int64V n\<rparr> \<and> sint n = 4)
 \<and> elems (Payload (zero_Message\<lparr>Payload := Slice []\<rparr>)) = []
 \<and> call LogPayloadSize (zero_Message\<lparr>Payload := Slice []\<rparr>)
       = Inr \<lparr>Key = ''payload_size'', Val = Int64V 0\<rparr>"
  using LogPayloadSize_byte_length [of "zero_Message\<lparr>Payload := Slice [116, 101, 115, 116]\<rparr>"]
    LogPayloadSize_byte_length [of "zero_Message\<lparr>Payload := Slice []\<rparr>"]
  by (simp add: zero_Message_def)

text \<open>
  C6. The message type has two variants under the one name \<open>msg_type\<close>. For every
  message, \<open>LogMessageTypeAsNum\<close> yields the integer value of the type itself,
  \<open>LogMessageTypeAsString\<close> yields the type carried as a Stringer, whose text is what
  the \<open>String\<close> method of the message type returns for it (its canonical name), and
  \<open>LogMessageType\<close> is the same function as \<open>LogMessageTypeAsNum\<close>.
\<close>

theorem message_type_variants:
  "LogMessageType = LogMessageTypeAsNum
 \<and> call LogMessageTypeAsNum m = Inr \<lparr>Key = ''msg_type'', Val = Int64V (Type m)\<rparr>
 \<and> call LogMessageType m = Inr \<lparr>Key = ''msg_type'', Val = Int64V (Type m)\<rparr>
 \<and> call LogMessageTypeAsString m = Inr \<lparr>Key = ''msg_type'', Val = StringerV (Type m)\<rparr>
 \<and> text_of String (StringerV (Type m)) = Some (String (Type m))"
  by (simp add: call_def LogMessageType_def LogMessageTypeAsNum_def LogMessageTypeAsString_def
        zap_Int_def zap_Int64_def zap_Stringer_def fMsgType_def)

text \<open>
  C7. Every factory of the package returns a function that is not nil. Run on any
  message in any state of the program, the body of its closure ends without a panic,
  leaves the state as it was, and returns a field that depends on the message alone:
  the same message gives the same field whatever the state. That field is the value of
  the function the factory stands for in \<open>ObserveWRP\<close>.
\<close>

theorem catalog_total:
  "\<forall>(field, run) \<in> set catalog.
     \<exists>f. field = Some f \<and> (\<forall>msg h. run msg h = (Inr (f msg), h) \<and> call field msg = Inr (f msg))"
  by (simp add: catalog_def call_def Log_defs run_defs go_return_def run_Int64p_pure)

theorem catalog_total_witness:
  "(LogStatus, run_LogStatus) \<in> set catalog
 \<and> run_LogStatus (zero_Message\<lparr>Status := Some 123\<rparr>) (\<lambda>_. [])
       = (Inr \<lparr>Key = ''status'', Val = Int64V 123\<rparr>, \<lambda>_. [])
 \<and> call LogStatus (zero_Message\<lparr>Status := Some 123\<rparr>) = Inr \<lparr>Key = ''status'', Val = Int64V 123\<rparr>"
proof -
  have mem: "(LogStatus, run_LogStatus) \<in> set catalog"
    by (simp add: catalog_def)
  with catalog_total obtain f where f: "LogStatus = Some f"
    and run: "\<And>msg h. run_LogStatus msg h = (Inr (f msg), h)"
    and cl: "\<And>msg. call LogStatus msg = Inr (f msg)"
    by fastforce
  from f have "f = (\<lambda>msg. zap_Int64p fStatus (Status msg))"
    by (simp add: LogStatus_def)
  then have "f (zero_Message\<lparr>Status := Some 123\<rparr>) = \<lparr>Key = ''status'', Val = Int64V 123\<rparr>"
    by (simp add: zap_Int64p_def zap_Int64_def fStatus_def)
  with mem run cl show ?thesis by simp
qed

section \<open>Empty and nil containers in the encoded record\<close>

text \<open>
  C8, as the claim states it, fails on the zero message: its metadata is the nil map, a
  map without entries, and the field the metadata extractor yields for it is encoded
  as \<open>null\<close>, not as an empty object.
\<close>

theorem nil_metadata_encoded_null:
  "Metadata zero_Message = nil_map
 \<and> encoded_field LogMetadata zero_Message = Inr (''metadata'', JNull)"
  by (simp add: encoded_field_def call_def LogMetadata_def zap_Any_def fMetadata_def zero_Message_def)

text \<open>
  C8, amended. For every message, a list of headers or of partner ids without elements,
  nil or empty, is encoded as the empty array under its name, and an empty metadata
  map that is not nil is encoded as the empty object; the nil metadata map is encoded
  as \<open>null\<close>. Each of the three extractors hands the attribute over as it is. An
  Observer configured with the headers and partner-ids extractors, on a message with
  headers \<open>["h1", "h2"]\<close> and partner ids \<open>[]\<close>, hands over exactly one record, whose
  fields are \<open>headers = ["h1", "h2"]\<close> and \<open>partner_ids = []\<close>, the second present and
  encoded as the empty array.
\<close>

theorem empty_containers_encoded:
  "(elems (Headers m) = [] \<longrightarrow> encoded_field LogHeaders m = Inr (''headers'', JArray []))
 \<and> (elems (PartnerIDs m) = [] \<longrightarrow> encoded_field LogPartnerIDs m = Inr (''partner_ids'', JArray []))
 \<and> (Metadata m = MapOf Map.empty \<longrightarrow>
       encoded_field LogMetadata m = Inr (''metadata'', JObject Map.empty))
 \<and> (Metadata m = nil_map \<longrightarrow> encoded_field LogMetadata m = Inr (''metadata'', JNull))
 \<and> call LogHeaders m = Inr \<lparr>Key = ''headers'', Val = StringsV (Headers m)\<rparr>
 \<and> call LogPartnerIDs m = Inr \<lparr>Key = ''partner_ids'', Val = StringsV (PartnerIDs m)\<rparr>
 \<and> call LogMetadata m = Inr \<lparr>Key = ''metadata'', Val = ReflectV (Metadata m)\<rparr>
 \<and> (Headers m = Slice [''h1'', ''h2''] \<and> PartnerIDs m = Slice [] \<longrightarrow>
       ObserveWRP \<lparr>Logger = Some l, Level = lvl, Message = label,
                   Fields = [LogHeaders, LogPartnerIDs]\<rparr> m h
         = Inr (h(l := h l @ [\<lparr>entry_Level = lvl, entry_Message = label,
                  Context = [\<lparr>Key = ''headers'', Val = StringsV (Slice [''h1'', ''h2''])\<rparr>,
                             \<lparr>Key = ''partner_ids'', Val = StringsV (Slice [])\<rparr>]\<rparr>]))
       \<and> encoded_field LogHeaders m = Inr (''headers'', JArray [''h1'', ''h2''])
       \<and> encoded_field LogPartnerIDs m = Inr (''partner_ids'', JArray []))"
  by (simp add: encoded_field_def call_def LogHeaders_def LogPartnerIDs_def LogMetadata_def
        zap_Strings_def zap_Any_def fHeaders_def fPartnerIDs_def fMetadata_def ObserveWRP_def
        Logger_Log_def)

theorem empty_containers_encoded_witness:
  "elems (Headers zero_Message) = []
 \<and> encoded_field LogHeaders zero_Message = Inr (''headers'', JArray [])
 \<and> elems (PartnerIDs zero_Message) = []
 \<and> encoded_field LogPartnerIDs zero_Message = Inr (''partner_ids'', JArray [])
 \<and> Metadata zero_Message = nil_map
 \<and> encoded_field LogMetadata zero_Message = Inr (''metadata'', JNull)
 \<and> Metadata (zero_Message\<lparr>Headers := Slice [''h1'', ''h2''], Metadata := MapOf Map.empty,
                            PartnerIDs := Slice []\<rparr>) = MapOf Map.empty
 \<and> encoded_field LogMetadata
       (zero_Message\<lparr>Headers := Slice [''h1'', ''h2''], Metadata := MapOf Map.empty,
                      PartnerIDs := Slice []\<rparr>) = Inr (''metadata'', JObject Map.empty)
 \<and> Headers (zero_Message\<lparr>Headers := Slice [''h1'', ''h2''], Metadata := MapOf Map.empty,
                           PartnerIDs := Slice []\<rparr>) = Slice [''h1'', ''h2'']
 \<and> PartnerIDs (zero_Message\<lparr>Headers := Slice [''h1'', ''h2''], Metadata := MapOf Map.empty,
                              PartnerIDs := Slice []\<rparr>) = Slice []
 \<and> ObserveWRP \<lparr>Logger = Some 0, Level = 0, Message = ''m'', Fields = [LogHeaders, LogPartnerIDs]\<rparr>
       (zero_Message\<lparr>Headers := Slice [''h1'', ''h2''], Metadata := MapOf Map.empty,
                      PartnerIDs := Slice []\<rparr>) (\<lambda>_. [])
     = Inr ((\<lambda>_. [])(0 := [\<lparr>entry_Level = 0, entry_Message = ''m'',
              Context = [\<lparr>Key = ''headers'', Val = StringsV (Slice [''h1'', ''h2''])\<rparr>,
                         \<lparr>Key = ''partner_ids'', Val = StringsV (Slice [])\<rparr>]\<rparr>]))
 \<and> encoded_field LogPartnerIDs
       (zero_Message\<lparr>Headers := Slice [''h1'', ''h2''], Metadata := MapOf Map.empty,
                      PartnerIDs := Slice []\<rparr>) = Inr (''partner_ids'', JArray [])"
  using empty_containers_encoded [of zero_Message]
    empty_containers_encoded
      [of "zero_Message\<lparr>Headers := Slice [''h1'', ''h2''], Metadata := MapOf Map.empty,
                          PartnerIDs := Slice []\<rparr>" 0 0 "''m''" "\<lambda>_. []"]
  by (simp add: zero_Message_def)



end
